theory Spec2Isabelle
  imports Complex_Main
begin

section \<open>The fan controller of fancontrol.py\<close>

text \<open>
  The model follows \<^verbatim>\<open>fancontrol.py\<close> function by function. Python floats are
  modelled as the real numbers: rounding, infinities and NaN are not represented.
  Every call that leaves the program (the thermal zone file, the logger, lgpio,
  \<^verbatim>\<open>time.sleep\<close>) is recorded as an event, in the order the code makes it, and
  every exception is a value: a computation returns the events it caused together with
  either the error it raised (\<open>Inl\<close>) or its result (\<open>Inr\<close>). Whether a call
  to the outside succeeds is given by the environment. Signals arriving from outside
  (\<^verbatim>\<open>KeyboardInterrupt\<close>) are not modelled.
\<close>

subsection \<open>Errors and events\<close>

datatype error =
    OSError             \<comment> \<open>\<^verbatim>\<open>open\<close> or \<^verbatim>\<open>read\<close> of the thermal zone file fails\<close>
  | ValueError          \<comment> \<open>\<^verbatim>\<open>float\<close> rejects the contents; \<^verbatim>\<open>time.sleep\<close> rejects a negative length\<close>
  | ZeroDivisionError   \<comment> \<open>\<^verbatim>\<open>100.0 / (tmax - tmin)\<close> with \<^verbatim>\<open>tmax == tmin\<close>\<close>
  | LgpioError          \<comment> \<open>an lgpio call fails\<close>

datatype log_record =
    Initialising
  | Exiting
  | ReadingTemperature real
  | SettingSpeed real

datatype event =
    LoggingInfo log_record
  | OpenThermalZone
  | GpiochipOpen int
  | GpioClaimOutput int int
  | GpiochipClose int
  | TxPwm "int option" int int real
  | Sleep real

type_synonym 'a io = "event list \<times> (error + 'a)"

definition ret :: "'a \<Rightarrow> 'a io" where
  "ret x = ([], Inr x)"

definition then_do :: "'a io \<Rightarrow> ('a \<Rightarrow> 'b io) \<Rightarrow> 'b io" where
  "then_do m f =
     (case m of
        (ev, Inl e) \<Rightarrow> (ev, Inl e)
      | (ev, Inr x) \<Rightarrow> (case f x of (ev', r) \<Rightarrow> (ev @ ev', r)))"

subsection \<open>The environment\<close>

text \<open>
  What the thermal zone file holds at one read: it cannot be opened or read, its
  contents are not accepted by \<^verbatim>\<open>float\<close>, or \<^verbatim>\<open>float\<close> parses them to a number.
\<close>

datatype thermal_zone = Unreadable | Malformed | Contents real

text \<open>
  One iteration of the loop meets one state of the thermal zone file and, if it writes to
  the fan, one outcome of \<^verbatim>\<open>lgpio.tx_pwm\<close>.
\<close>

record tick =
  thermal :: thermal_zone
  tx_pwm_ok :: bool

text \<open>
  A run meets the outcome of \<^verbatim>\<open>lgpio.gpiochip_open\<close> (the handle, or \<open>None\<close> when
  it raises), of \<^verbatim>\<open>lgpio.gpio_claim_output\<close>, of \<^verbatim>\<open>lgpio.gpiochip_close\<close>, and the
  ticks of the iterations observed.
\<close>

record world =
  chip :: "int option"
  claim_ok :: bool
  ticks :: "tick list"
  close_ok :: bool

subsection \<open>get_temperature\<close>

text \<open>
  Lines 39 to 51. The file is opened and read, \<^verbatim>\<open>float\<close> parses the contents, the
  result is divided by 1000 and logged.
\<close>

definition get_temperature :: "thermal_zone \<Rightarrow> real io" where
  "get_temperature z =
     (case z of
        Unreadable \<Rightarrow> ([OpenThermalZone], Inl OSError)
      | Malformed \<Rightarrow> ([OpenThermalZone], Inl ValueError)
      | Contents raw \<Rightarrow>
          (let temperature = raw / 1000
           in ([OpenThermalZone, LoggingInfo (ReadingTemperature temperature)],
               Inr temperature)))"

subsection \<open>class Fan\<close>

record fan =
  pin :: int
  h :: "int option"

definition FREQ :: int where
  "FREQ = 25"

text \<open>
  \<^verbatim>\<open>__init__\<close>, lines 62 to 74: \<^verbatim>\<open>gpiochip_open\<close>, then \<^verbatim>\<open>gpio_claim_output\<close> on
  the handle it returned. Either may raise; the object is built only if both return.
\<close>

definition Fan_init :: "int \<Rightarrow> int \<Rightarrow> int option \<Rightarrow> bool \<Rightarrow> fan io" where
  "Fan_init index p opened claimed =
     (case opened of
        None \<Rightarrow> ([LoggingInfo Initialising, GpiochipOpen index], Inl LgpioError)
      | Some hnd \<Rightarrow>
          ([LoggingInfo Initialising, GpiochipOpen index, GpioClaimOutput hnd p],
           if claimed then Inr \<lparr>pin = p, h = Some hnd\<rparr> else Inl LgpioError))"

text \<open>
  \<^verbatim>\<open>close\<close>, lines 76 to 84: with a handle, log, release it and forget it (the handle
  is forgotten only after \<^verbatim>\<open>gpiochip_close\<close> has returned); without one, do nothing.
\<close>

definition Fan_close :: "fan \<Rightarrow> bool \<Rightarrow> fan io" where
  "Fan_close f released =
     (case h f of
        Some hnd \<Rightarrow>
          ([LoggingInfo Exiting, GpiochipClose hnd],
           if released then Inr (f\<lparr>h := None\<rparr>) else Inl LgpioError)
      | None \<Rightarrow> ([], Inr f))"

text \<open>\<^verbatim>\<open>__enter__\<close> and \<^verbatim>\<open>__exit__\<close>, lines 86 to 98.\<close>

definition Fan_enter :: "fan \<Rightarrow> fan io" where
  "Fan_enter f = ret f"

definition Fan_exit :: "fan \<Rightarrow> bool \<Rightarrow> fan io" where
  "Fan_exit f released = Fan_close f released"

text \<open>\<^verbatim>\<open>set\<close>, lines 100 to 109: log, then one call of \<^verbatim>\<open>tx_pwm\<close>.\<close>

definition Fan_set :: "fan \<Rightarrow> real \<Rightarrow> bool \<Rightarrow> unit io" where
  "Fan_set f percent written =
     ([LoggingInfo (SettingSpeed percent), TxPwm (h f) (pin f) FREQ percent],
      if written then Inr () else Inl LgpioError)"

subsection \<open>control\<close>

text \<open>Lines 131 to 133: the linear map from temperature to speed, clamped.\<close>

definition compute_speed :: "real \<Rightarrow> real \<Rightarrow> real \<Rightarrow> error + real" where
  "compute_speed tmin tmax temperature =
     (if tmax - tmin = 0 then Inl ZeroDivisionError
      else
        let m = 100 / (tmax - tmin);
            c = - m * tmin
        in Inr (min (max (m * temperature + c) 0) 100))"

text \<open>\<^verbatim>\<open>time.sleep\<close>, which raises \<^verbatim>\<open>ValueError\<close> on a negative length.\<close>

definition sleep :: "real \<Rightarrow> unit io" where
  "sleep secs = (if secs < 0 then ([], Inl ValueError) else ([Sleep secs], Inr ()))"

text \<open>
  The body of the \<^verbatim>\<open>while True\<close> loop, lines 129 to 139; it returns the new
  \<^verbatim>\<open>previous_speed\<close>.
\<close>

definition iteration ::
  "fan \<Rightarrow> real \<Rightarrow> real \<Rightarrow> real \<Rightarrow> real \<Rightarrow> real \<Rightarrow> tick \<Rightarrow> real io" where
  "iteration f tmin tmax interval epsilon previous_speed tk =
     then_do (get_temperature (thermal tk)) (\<lambda>temperature.
     then_do ([], compute_speed tmin tmax temperature) (\<lambda>speed.
     then_do
       (if \<bar>speed - previous_speed\<bar> > epsilon
        then then_do (Fan_set f speed (tx_pwm_ok tk)) (\<lambda>_. ret speed)
        else ret previous_speed) (\<lambda>previous_speed'.
     then_do (sleep interval) (\<lambda>_. ret previous_speed'))))"

text \<open>
  The loop, line 127, never returns: it ends only by an exception. Run against the ticks of finitely
  many iterations, the result \<open>Inr p\<close> says that the loop is still running after them,
  with \<^verbatim>\<open>previous_speed\<close> equal to \<open>p\<close>.
\<close>

fun control_loop ::
  "fan \<Rightarrow> real \<Rightarrow> real \<Rightarrow> real \<Rightarrow> real \<Rightarrow> real \<Rightarrow> tick list \<Rightarrow> real io" where
  "control_loop f tmin tmax interval epsilon previous_speed [] = ret previous_speed"
| "control_loop f tmin tmax interval epsilon previous_speed (tk # tks) =
     then_do (iteration f tmin tmax interval epsilon previous_speed tk)
       (\<lambda>previous_speed'. control_loop f tmin tmax interval epsilon previous_speed' tks)"

text \<open>\<^verbatim>\<open>control\<close> sets \<^verbatim>\<open>previous_speed = 0\<close> (line 125) and enters the loop.\<close>

definition control :: "fan \<Rightarrow> real \<Rightarrow> real \<Rightarrow> real \<Rightarrow> real \<Rightarrow> tick list \<Rightarrow> real io" where
  "control f tmin tmax interval epsilon tks =
     control_loop f tmin tmax interval epsilon 0 tks"

subsection \<open>run\<close>

text \<open>
  Lines 161 and 162. \<^verbatim>\<open>with Fan(index, pin) as fan\<close>: an exception in the
  constructor leaves before the block is entered; an exception in the block calls
  \<^verbatim>\<open>__exit__\<close> of the object constructed, which does not suppress it, and an
  exception of \<^verbatim>\<open>__exit__\<close> itself takes its place. While the loop is running
  (\<open>Inr\<close>), the block has not been left.
\<close>

definition run ::
  "int \<Rightarrow> int \<Rightarrow> real \<Rightarrow> real \<Rightarrow> real \<Rightarrow> real \<Rightarrow> world \<Rightarrow> real io" where
  "run index p tmin tmax interval epsilon w =
     then_do (Fan_init index p (chip w) (claim_ok w)) (\<lambda>manager.
     then_do (Fan_enter manager) (\<lambda>f.
       case control f tmin tmax interval epsilon (ticks w) of
         (ev, Inr previous_speed) \<Rightarrow> (ev, Inr previous_speed)
       | (ev, Inl e) \<Rightarrow>
           (case Fan_exit manager (close_ok w) of
              (ev', Inl e') \<Rightarrow> (ev @ ev', Inl e')
            | (ev', Inr _) \<Rightarrow> (ev @ ev', Inl e))))"

subsection \<open>Reading a trace\<close>

fun writes :: "event list \<Rightarrow> real list" where
  "writes [] = []"
| "writes (TxPwm hnd p fr percent # evs) = percent # writes evs"
| "writes (_ # evs) = writes evs"

fun closes :: "event list \<Rightarrow> int list" where
  "closes [] = []"
| "closes (GpiochipClose hnd # evs) = hnd # closes evs"
| "closes (_ # evs) = closes evs"

fun reads :: "event list \<Rightarrow> nat" where
  "reads [] = 0"
| "reads (OpenThermalZone # evs) = Suc (reads evs)"
| "reads (_ # evs) = reads evs"


text \<open>A tick at which the file holds \<open>t\<close> degrees and a write to the fan succeeds.\<close>

definition reading :: "real \<Rightarrow> tick" where
  "reading t = \<lparr>thermal = Contents (t * 1000), tx_pwm_ok = True\<rparr>"

text \<open>
  Scenario A of the specification: the file holds 40, 60, 61 and 90 degrees at four
  successive reads.
\<close>

definition scenario_A :: "tick list" where
  "scenario_A = [reading 40, reading 60, reading 61, reading 90]"

text \<open>A world in which every lgpio call succeeds and one iteration is observed, at 40 degrees.\<close>

definition bench :: world where
  "bench = \<lparr>chip = Some 0, claim_ok = True, ticks = [reading 40], close_ok = True\<rparr>"

text \<open>
  Scenario B of the specification: the third read of the thermal zone file fails.
\<close>

definition scenario_B :: world where
  "scenario_B =
     \<lparr>chip = Some 0, claim_ok = True,
      ticks = [reading 40, reading 60, \<lparr>thermal = Unreadable, tx_pwm_ok = True\<rparr>, reading 90],
      close_ok = True\<rparr>"

section \<open>Properties\<close>

subsection \<open>Sequencing and traces\<close>

lemma then_do_Inl: "then_do (ev, Inl e) g = (ev, Inl e)"
  by (simp add: then_do_def)

lemma then_do_Inr: "then_do (ev, Inr x) g = (ev @ fst (g x), snd (g x))"
  by (simp add: then_do_def split: prod.splits)

lemma then_do_ret: "then_do (ret x) g = g x"
  by (simp add: then_do_def ret_def split: prod.splits)

lemma writes_append: "writes (xs @ ys) = writes xs @ writes ys"
  by (induction xs rule: writes.induct) simp_all

lemma closes_append: "closes (xs @ ys) = closes xs @ closes ys"
  by (induction xs rule: closes.induct) simp_all

lemma reads_append: "reads (xs @ ys) = reads xs + reads ys"
  by (induction xs rule: reads.induct) simp_all

text \<open>
  The definitions that a concrete run unfolds to.
\<close>

lemmas unfold_control =
  control_def iteration_def then_do_def ret_def get_temperature_def compute_speed_def
  Fan_set_def sleep_def reading_def Let_def

subsection \<open>Reading the temperature\<close>

lemma get_temperature_Contents:
  "get_temperature (Contents raw) =
     ([OpenThermalZone, LoggingInfo (ReadingTemperature (raw / 1000))], Inr (raw / 1000))"
  by (simp add: get_temperature_def Let_def)

lemma get_temperature_Inl:
  "get_temperature z = (ev, Inl e) \<Longrightarrow>
   ev = [OpenThermalZone] \<and> (z = Unreadable \<and> e = OSError \<or> z = Malformed \<and> e = ValueError)"
  by (cases z) (simp_all add: get_temperature_def Let_def)

text \<open>
  C9. Every read that succeeds returns the number parsed from the file, taken as
  millidegrees, divided by 1000. What it does besides is open the file and log one record:
  \<open>get_temperature\<close> neither receives nor returns \<^verbatim>\<open>previous_speed\<close> or the fan.
\<close>

theorem get_temperature_millidegrees:
  "get_temperature z = (ev, Inr t) \<Longrightarrow>
   (\<exists>raw. z = Contents raw \<and> t = raw / 1000)
   \<and> ev = [OpenThermalZone, LoggingInfo (ReadingTemperature t)]"
  by (cases z) (auto simp: get_temperature_def Let_def)

theorem get_temperature_millidegrees_witness:
  "get_temperature (Contents 61500) =
     ([OpenThermalZone, LoggingInfo (ReadingTemperature (123 / 2))], Inr (123 / 2))
   \<and> (\<exists>raw. Contents 61500 = Contents raw \<and> (123 / 2 :: real) = raw / 1000)"
proof -
  have a: "get_temperature (Contents 61500) =
     ([OpenThermalZone, LoggingInfo (ReadingTemperature (123 / 2))], Inr (123 / 2))"
    by (simp add: get_temperature_def Let_def)
  show ?thesis using a get_temperature_millidegrees [OF a] by simp
qed

subsection \<open>The mapping from temperature to speed\<close>

lemma compute_speed_line:
  fixes tmin tmax t :: real
  assumes "tmin < tmax"
  shows "100 / (tmax - tmin) * t + - (100 / (tmax - tmin)) * tmin
         = 100 * (t - tmin) / (tmax - tmin)"
  by (simp add: algebra_simps diff_divide_distrib)

lemma compute_speed_Inr:
  "tmax \<noteq> tmin \<Longrightarrow>
   compute_speed tmin tmax t =
     Inr (min (max (100 / (tmax - tmin) * t + - (100 / (tmax - tmin)) * tmin) 0) 100)"
  by (simp add: compute_speed_def Let_def)

lemma compute_speed_clamp:
  assumes "tmin < tmax"
  shows "compute_speed tmin tmax t = Inr (min (max (100 * (t - tmin) / (tmax - tmin)) 0) 100)"
proof -
  have "tmax \<noteq> tmin" using assms by simp
  then have "compute_speed tmin tmax t =
      Inr (min (max (100 / (tmax - tmin) * t + - (100 / (tmax - tmin)) * tmin) 0) 100)"
    by (rule compute_speed_Inr)
  then show ?thesis
    by (simp only: compute_speed_line [OF assms])
qed

lemma compute_speed_range:
  "compute_speed tmin tmax t = Inr target \<Longrightarrow> 0 \<le> target \<and> target \<le> 100"
  by (auto simp: compute_speed_def Let_def split: if_splits)



text \<open>
  C5. With \<open>tmin < tmax\<close> the mapping from temperature to speed is monotone: a higher
  temperature never gives a lower speed.
\<close>

theorem compute_speed_mono:
  "tmin < tmax \<Longrightarrow> t1 < t2 \<Longrightarrow>
   \<exists>s1 s2. compute_speed tmin tmax t1 = Inr s1 \<and> compute_speed tmin tmax t2 = Inr s2
     \<and> s1 \<le> s2"
proof -
  assume lt: "tmin < tmax" and t: "t1 < t2"
  define x1 where "x1 = 100 * (t1 - tmin) / (tmax - tmin)"
  define x2 where "x2 = 100 * (t2 - tmin) / (tmax - tmin)"
  have d: "0 < tmax - tmin" using lt by simp
  have "100 * (t1 - tmin) \<le> 100 * (t2 - tmin)" using t by simp
  then have "x1 \<le> x2"
    unfolding x1_def x2_def using d by (simp only: divide_le_cancel) simp
  then have "min (max x1 0) 100 \<le> min (max x2 0) 100"
    by (simp add: min_def max_def)
  then show ?thesis
    using compute_speed_clamp [OF lt, of t1] compute_speed_clamp [OF lt, of t2]
    by (simp only: x1_def x2_def) blast
qed

theorem compute_speed_mono_witness:
  "(50::real) < 75 \<and> (60::real) < 61 \<and>
   (\<exists>s1 s2. compute_speed 50 75 60 = Inr s1 \<and> compute_speed 50 75 61 = Inr s2 \<and> s1 \<le> s2)"
  using compute_speed_mono [of 50 75 60 61] by simp

subsection \<open>One iteration\<close>

lemma iteration_read_fails:
  "get_temperature (thermal tk) = (ev, Inl e) \<Longrightarrow>
   iteration f tmin tmax interval epsilon previous_speed tk = (ev, Inl e)"
  by (simp add: iteration_def then_do_Inl)

lemma iteration_compute_fails:
  "thermal tk = Contents raw \<Longrightarrow> compute_speed tmin tmax (raw / 1000) = Inl e \<Longrightarrow>
   iteration f tmin tmax interval epsilon previous_speed tk =
     ([OpenThermalZone, LoggingInfo (ReadingTemperature (raw / 1000))], Inl e)"
  by (simp add: iteration_def get_temperature_Contents then_do_Inr then_do_Inl)

lemma iteration_zero_division:
  "thermal tk = Contents raw \<Longrightarrow>
   iteration f t t interval epsilon previous_speed tk =
     ([OpenThermalZone, LoggingInfo (ReadingTemperature (raw / 1000))], Inl ZeroDivisionError)"
  by (simp add: iteration_def get_temperature_Contents then_do_Inr then_do_Inl compute_speed_def)

lemma iteration_skip:
  assumes "thermal tk = Contents raw"
    and "compute_speed tmin tmax (raw / 1000) = Inr target"
    and "\<not> \<bar>target - previous_speed\<bar> > epsilon"
  shows "iteration f tmin tmax interval epsilon previous_speed tk =
     (if interval < 0
      then ([OpenThermalZone, LoggingInfo (ReadingTemperature (raw / 1000))], Inl ValueError)
      else ([OpenThermalZone, LoggingInfo (ReadingTemperature (raw / 1000)), Sleep interval],
            Inr previous_speed))"
  using assms
  by (simp add: iteration_def get_temperature_Contents then_do_Inr then_do_Inl then_do_ret
      sleep_def ret_def)

lemma iteration_write:
  assumes "thermal tk = Contents raw"
    and "compute_speed tmin tmax (raw / 1000) = Inr target"
    and "\<bar>target - previous_speed\<bar> > epsilon"
  shows "iteration f tmin tmax interval epsilon previous_speed tk =
     (if \<not> tx_pwm_ok tk
      then ([OpenThermalZone, LoggingInfo (ReadingTemperature (raw / 1000)),
             LoggingInfo (SettingSpeed target), TxPwm (h f) (pin f) FREQ target],
            Inl LgpioError)
      else if interval < 0
      then ([OpenThermalZone, LoggingInfo (ReadingTemperature (raw / 1000)),
             LoggingInfo (SettingSpeed target), TxPwm (h f) (pin f) FREQ target],
            Inl ValueError)
      else ([OpenThermalZone, LoggingInfo (ReadingTemperature (raw / 1000)),
             LoggingInfo (SettingSpeed target), TxPwm (h f) (pin f) FREQ target,
             Sleep interval],
            Inr target))"
  using assms
  by (simp add: iteration_def get_temperature_Contents then_do_Inr then_do_Inl then_do_ret
      sleep_def ret_def Fan_set_def)



text \<open>
  The hardware writes of one iteration: none, or the one computed target.
\<close>

lemma iteration_writes:
  "writes (fst (iteration f tmin tmax interval epsilon previous_speed tk)) = []
     \<and> (\<forall>q. snd (iteration f tmin tmax interval epsilon previous_speed tk) = Inr q
            \<longrightarrow> q = previous_speed)
   \<or> (\<exists>raw target. thermal tk = Contents raw
        \<and> compute_speed tmin tmax (raw / 1000) = Inr target
        \<and> \<bar>target - previous_speed\<bar> > epsilon
        \<and> writes (fst (iteration f tmin tmax interval epsilon previous_speed tk)) = [target])"
proof (cases "thermal tk")
  case Unreadable
  then show ?thesis by (simp add: iteration_def get_temperature_def then_do_Inl)
next
  case Malformed
  then show ?thesis by (simp add: iteration_def get_temperature_def then_do_Inl)
next
  case (Contents raw)
  show ?thesis
  proof (cases "compute_speed tmin tmax (raw / 1000)")
    case (Inl e)
    show ?thesis by (simp add: iteration_compute_fails [OF Contents Inl])
  next
    case (Inr target)
    show ?thesis
    proof (cases "\<bar>target - previous_speed\<bar> > epsilon")
      case True
      have "writes (fst (iteration f tmin tmax interval epsilon previous_speed tk)) = [target]"
        by (simp add: iteration_write [OF Contents Inr True])
      then show ?thesis using Contents Inr True by blast
    next
      case False
      show ?thesis by (simp add: iteration_skip [OF Contents Inr False])
    qed
  qed
qed

lemma iteration_reads:
  "reads (fst (iteration f tmin tmax interval epsilon previous_speed tk)) = 1"
proof (cases "thermal tk")
  case Unreadable
  then show ?thesis by (simp add: iteration_def get_temperature_def then_do_Inl)
next
  case Malformed
  then show ?thesis by (simp add: iteration_def get_temperature_def then_do_Inl)
next
  case (Contents raw)
  show ?thesis
  proof (cases "compute_speed tmin tmax (raw / 1000)")
    case (Inl e)
    show ?thesis by (simp add: iteration_compute_fails [OF Contents Inl])
  next
    case (Inr target)
    show ?thesis
    proof (cases "\<bar>target - previous_speed\<bar> > epsilon")
      case True
      show ?thesis by (simp add: iteration_write [OF Contents Inr True])
    next
      case False
      show ?thesis by (simp add: iteration_skip [OF Contents Inr False])
    qed
  qed
qed

lemma iteration_closes:
  "closes (fst (iteration f tmin tmax interval epsilon previous_speed tk)) = []"
proof (cases "thermal tk")
  case Unreadable
  then show ?thesis by (simp add: iteration_def get_temperature_def then_do_Inl)
next
  case Malformed
  then show ?thesis by (simp add: iteration_def get_temperature_def then_do_Inl)
next
  case (Contents raw)
  show ?thesis
  proof (cases "compute_speed tmin tmax (raw / 1000)")
    case (Inl e)
    show ?thesis by (simp add: iteration_compute_fails [OF Contents Inl])
  next
    case (Inr target)
    show ?thesis
    proof (cases "\<bar>target - previous_speed\<bar> > epsilon")
      case True
      show ?thesis by (simp add: iteration_write [OF Contents Inr True])
    next
      case False
      show ?thesis by (simp add: iteration_skip [OF Contents Inr False])
    qed
  qed
qed

subsection \<open>The loop\<close>

lemma control_loop_closes:
  "closes (fst (control_loop f tmin tmax interval epsilon p tks)) = []"
proof (induction tks arbitrary: p)
  case Nil
  show ?case by (simp add: ret_def)
next
  case (Cons tk tks)
  obtain ev r where it: "iteration f tmin tmax interval epsilon p tk = (ev, r)"
    by (cases "iteration f tmin tmax interval epsilon p tk")
  have ev: "closes ev = []"
    using iteration_closes [of f tmin tmax interval epsilon p tk] it by simp
  show ?case
  proof (cases r)
    case (Inl e)
    then show ?thesis using it ev by (simp add: then_do_Inl)
  next
    case (Inr p')
    then show ?thesis
      using it ev Cons.IH [of p'] by (simp add: then_do_Inr closes_append)
  qed
qed

lemma control_loop_append:
  "control_loop f tmin tmax interval epsilon p pre = (ev, Inr p') \<Longrightarrow>
   control_loop f tmin tmax interval epsilon p (pre @ rest) =
     (ev @ fst (control_loop f tmin tmax interval epsilon p' rest),
      snd (control_loop f tmin tmax interval epsilon p' rest))"
proof (induction pre arbitrary: p ev)
  case Nil
  then show ?case by (simp add: ret_def)
next
  case (Cons tk pre)
  obtain ev1 r where it: "iteration f tmin tmax interval epsilon p tk = (ev1, r)"
    by (cases "iteration f tmin tmax interval epsilon p tk")
  show ?case
  proof (cases r)
    case (Inl e)
    then show ?thesis using it Cons.prems by (simp add: then_do_Inl)
  next
    case (Inr q)
    obtain ev2 where rest: "control_loop f tmin tmax interval epsilon q pre = (ev2, Inr p')"
      and ev: "ev = ev1 @ ev2"
      using Cons.prems it Inr
      by (cases "control_loop f tmin tmax interval epsilon q pre")
        (simp add: then_do_Inr)
    show ?thesis
      using it Inr Cons.IH [OF rest] ev by (simp add: then_do_Inr)
  qed
qed

lemma control_loop_writes_range:
  "\<forall>d \<in> set (writes (fst (control_loop f tmin tmax interval epsilon p tks))).
     0 \<le> d \<and> d \<le> 100"
proof (induction tks arbitrary: p)
  case Nil
  show ?case by (simp add: ret_def)
next
  case (Cons tk tks)
  obtain ev r where it: "iteration f tmin tmax interval epsilon p tk = (ev, r)"
    by (cases "iteration f tmin tmax interval epsilon p tk")
  have ev: "\<forall>d \<in> set (writes ev). 0 \<le> d \<and> d \<le> 100"
    using iteration_writes [of f tmin tmax interval epsilon p tk] it compute_speed_range
    by auto
  show ?case
  proof (cases r)
    case (Inl e)
    then show ?thesis using it ev by (simp add: then_do_Inl)
  next
    case (Inr p')
    then show ?thesis
      using it ev Cons.IH [of p']
      by (auto simp: then_do_Inr writes_append)
  qed
qed

lemma control_loop_reads:
  "control_loop f tmin tmax interval epsilon p tks = (ev, Inr q) \<Longrightarrow> reads ev = length tks"
proof (induction tks arbitrary: p ev)
  case Nil
  then show ?case by (simp add: ret_def)
next
  case (Cons tk tks)
  obtain ev1 r where it: "iteration f tmin tmax interval epsilon p tk = (ev1, r)"
    by (cases "iteration f tmin tmax interval epsilon p tk")
  have one: "reads ev1 = 1"
    using iteration_reads [of f tmin tmax interval epsilon p tk] it by simp
  show ?case
  proof (cases r)
    case (Inl e)
    then show ?thesis using it Cons.prems by (simp add: then_do_Inl)
  next
    case (Inr p')
    obtain ev2 where rest: "control_loop f tmin tmax interval epsilon p' tks = (ev2, Inr q)"
      and ev: "ev = ev1 @ ev2"
      using Cons.prems it Inr
      by (cases "control_loop f tmin tmax interval epsilon p' tks") (simp add: then_do_Inr)
    show ?thesis
      using Cons.IH [OF rest] ev one by (simp add: reads_append)
  qed
qed

lemma control_loop_idle:
  assumes "\<forall>tk \<in> set tks. \<forall>raw target. thermal tk = Contents raw \<longrightarrow>
             compute_speed tmin tmax (raw / 1000) = Inr target \<longrightarrow> \<bar>target\<bar> \<le> epsilon"
  shows "writes (fst (control_loop f tmin tmax interval epsilon 0 tks)) = []"
  using assms
proof (induction tks)
  case Nil
  show ?case by (simp add: ret_def)
next
  case (Cons tk tks)
  obtain ev r where it: "iteration f tmin tmax interval epsilon 0 tk = (ev, r)"
    by (cases "iteration f tmin tmax interval epsilon 0 tk")
  have near: "\<And>raw target. thermal tk = Contents raw \<Longrightarrow>
      compute_speed tmin tmax (raw / 1000) = Inr target \<Longrightarrow> \<not> \<bar>target - 0\<bar> > epsilon"
    using Cons.prems by fastforce
  have ev: "writes ev = [] \<and> (\<forall>q. r = Inr q \<longrightarrow> q = 0)"
    using iteration_writes [of f tmin tmax interval epsilon 0 tk] it near by auto
  have rest: "writes (fst (control_loop f tmin tmax interval epsilon 0 tks)) = []"
    using Cons.IH Cons.prems by simp
  show ?case
  proof (cases r)
    case (Inl e)
    then show ?thesis using it ev by (simp add: then_do_Inl)
  next
    case (Inr q)
    then have "q = 0" using ev by simp
    then show ?thesis using it ev Inr rest by (simp add: then_do_Inr writes_append)
  qed
qed

text \<open>
  C3, as the specification states it, fails: in scenario A (\<open>tmin = 50\<close>,
  \<open>tmax = 75\<close>, \<open>epsilon = 1\<close>, temperatures 40, 60, 61, 90) the writes are not
  0, 40, 44, 100. The first target, 0, equals the initial \<^verbatim>\<open>previous_speed\<close>, so the
  first iteration writes nothing.
\<close>

theorem scenario_A_counterexample:
  "writes (fst (control \<lparr>pin = 14, h = Some 0\<rparr> 50 75 10 1 scenario_A)) \<noteq> [0, 40, 44, 100]"
  by (simp add: scenario_A_def unfold_control)

text \<open>
  C3, amended. In scenario A the loop issues exactly the writes 40, 44, 100, in that
  order.
\<close>

theorem scenario_A_writes:
  "writes (fst (control f 50 75 10 1 scenario_A)) = [40, 44, 100]"
  by (simp add: scenario_A_def unfold_control)

theorem scenario_A_writes_witness:
  "writes (fst (control \<lparr>pin = 14, h = Some 0\<rparr> 50 75 10 1 scenario_A)) = [40, 44, 100]"
  using scenario_A_writes [of "\<lparr>pin = 14, h = Some 0\<rparr>"] by simp

subsection \<open>The fan\<close>

lemma Fan_init_ok:
  "Fan_init index p (Some hnd) True =
     ([LoggingInfo Initialising, GpiochipOpen index, GpioClaimOutput hnd p],
      Inr \<lparr>pin = p, h = Some hnd\<rparr>)"
  by (simp add: Fan_init_def)

lemma Fan_init_writes: "writes (fst (Fan_init index p opened claimed)) = []"
  by (cases opened) (simp_all add: Fan_init_def)

lemma Fan_exit_writes: "writes (fst (Fan_exit f released)) = []"
  by (cases "h f") (simp_all add: Fan_exit_def Fan_close_def)

text \<open>
  C7. After a \<^verbatim>\<open>close\<close> that returned, a second \<^verbatim>\<open>close\<close> on the same fan returns
  without raising and without calling lgpio: it causes no event at all, whatever lgpio would
  have answered.
\<close>

theorem Fan_close_twice:
  "Fan_close f r1 = (ev, Inr f') \<Longrightarrow> Fan_close f' r2 = ([], Inr f')"
  by (cases "h f") (auto simp: Fan_close_def split: if_splits)

theorem Fan_close_twice_witness:
  "Fan_close \<lparr>pin = 14, h = Some 0\<rparr> True =
     ([LoggingInfo Exiting, GpiochipClose 0], Inr \<lparr>pin = 14, h = None\<rparr>)
   \<and> Fan_close \<lparr>pin = 14, h = None\<rparr> False = ([], Inr \<lparr>pin = 14, h = None\<rparr>)"
proof -
  have a: "Fan_close \<lparr>pin = 14, h = Some 0\<rparr> True =
     ([LoggingInfo Exiting, GpiochipClose 0], Inr \<lparr>pin = 14, h = None\<rparr>)"
    by (simp add: Fan_close_def)
  show ?thesis using a Fan_close_twice [OF a, of False] by simp
qed

subsection \<open>A run\<close>

lemma run_running:
  assumes "chip w = Some hnd" and "claim_ok w"
    and "control \<lparr>pin = p, h = Some hnd\<rparr> tmin tmax interval epsilon (ticks w) = (ev, Inr q)"
  shows "run index p tmin tmax interval epsilon w =
     ([LoggingInfo Initialising, GpiochipOpen index, GpioClaimOutput hnd p] @ ev, Inr q)"
  using assms by (simp add: run_def Fan_init_ok Fan_enter_def then_do_Inr then_do_ret)

lemma run_raised:
  assumes "chip w = Some hnd" and "claim_ok w"
    and "control \<lparr>pin = p, h = Some hnd\<rparr> tmin tmax interval epsilon (ticks w) = (ev, Inl e)"
  shows "run index p tmin tmax interval epsilon w =
     ([LoggingInfo Initialising, GpiochipOpen index, GpioClaimOutput hnd p] @ ev
        @ [LoggingInfo Exiting, GpiochipClose hnd],
      Inl (if close_ok w then e else LgpioError))"
  using assms by (simp add: run_def Fan_init_ok Fan_enter_def then_do_Inr then_do_ret Fan_exit_def
      Fan_close_def)

lemma run_writes:
  "writes (fst (run index p tmin tmax interval epsilon w)) = []
   \<or> (\<exists>f. writes (fst (run index p tmin tmax interval epsilon w)) =
         writes (fst (control f tmin tmax interval epsilon (ticks w))))"
proof (cases "Fan_init index p (chip w) (claim_ok w)")
  case (Pair ev0 r)
  have ev0: "writes ev0 = []"
    using Fan_init_writes [of index p "chip w" "claim_ok w"] Pair by simp
  show ?thesis
  proof (cases r)
    case (Inl e)
    then show ?thesis using Pair ev0 by (simp add: run_def then_do_Inl)
  next
    case (Inr f)
    obtain ev r' where c: "control f tmin tmax interval epsilon (ticks w) = (ev, r')"
      by (cases "control f tmin tmax interval epsilon (ticks w)")
    obtain ev' r'' where x: "Fan_exit f (close_ok w) = (ev', r'')"
      by (cases "Fan_exit f (close_ok w)")
    have ev': "writes ev' = []"
      using Fan_exit_writes [of f "close_ok w"] x by simp
    have "writes (fst (run index p tmin tmax interval epsilon w)) = writes ev"
      using Pair Inr c x ev0 ev'
      by (cases r'; cases r'')
        (simp_all add: run_def Fan_enter_def then_do_Inr then_do_ret writes_append)
    then show ?thesis using c by (metis fst_conv)
  qed
qed

text \<open>
  C6. Every value written to the fan lies between 0 and 100: in the loop started from any
  \<^verbatim>\<open>previous_speed\<close>, for any parameters and any temperatures, and so in every run.
\<close>

theorem writes_within_bounds:
  "(\<forall>d \<in> set (writes (fst (control_loop f tmin tmax interval epsilon previous_speed tks))).
      0 \<le> d \<and> d \<le> 100)
   \<and> (\<forall>d \<in> set (writes (fst (run index p tmin tmax interval epsilon w))).
      0 \<le> d \<and> d \<le> 100)"
proof
  show "\<forall>d \<in> set (writes (fst (control_loop f tmin tmax interval epsilon previous_speed tks))).
      0 \<le> d \<and> d \<le> 100"
    by (rule control_loop_writes_range)
next
  show "\<forall>d \<in> set (writes (fst (run index p tmin tmax interval epsilon w))).
      0 \<le> d \<and> d \<le> 100"
    using run_writes [of index p tmin tmax interval epsilon w]
      control_loop_writes_range [of _ tmin tmax interval epsilon 0 "ticks w"]
    by (auto simp: control_def)
qed

theorem writes_within_bounds_witness:
  "writes (fst (control_loop \<lparr>pin = 14, h = Some 0\<rparr> 50 75 10 1 0
      [reading 30, reading 60, reading 120])) = [40, 100]
   \<and> (0::real) \<le> 40 \<and> (40::real) \<le> 100 \<and> (0::real) \<le> 100 \<and> (100::real) \<le> 100"
  using writes_within_bounds [of "\<lparr>pin = 14, h = Some 0\<rparr>" 50 75 10 1 0
      "[reading 30, reading 60, reading 120]" 0 14 bench]
  by (simp add: unfold_control)

text \<open>
  C10. The loop starts with \<^verbatim>\<open>previous_speed\<close> equal to 0 and writes nothing before
  its first iteration. If every target computed during a run is within \<open>epsilon\<close> of 0,
  the run never writes to the fan: neither the loop nor the constructor commands a speed.
\<close>

theorem no_write_near_zero:
  assumes "\<forall>tk \<in> set tks. \<forall>raw target. thermal tk = Contents raw \<longrightarrow>
             compute_speed tmin tmax (raw / 1000) = Inr target \<longrightarrow> \<bar>target - 0\<bar> \<le> epsilon"
  shows "control f tmin tmax interval epsilon [] = ([], Inr 0)
   \<and> writes (fst (control f tmin tmax interval epsilon tks)) = []
   \<and> writes (fst (run index p tmin tmax interval epsilon (w\<lparr>ticks := tks\<rparr>))) = []"
proof -
  have idle: "\<And>g. writes (fst (control g tmin tmax interval epsilon tks)) = []"
    using control_loop_idle [of tks tmin tmax epsilon _ interval] assms
    by (simp add: control_def)
  have "writes (fst (run index p tmin tmax interval epsilon (w\<lparr>ticks := tks\<rparr>))) = []"
    using run_writes [of index p tmin tmax interval epsilon "w\<lparr>ticks := tks\<rparr>"] idle
    by auto
  then show ?thesis using idle [of f] by (simp add: control_def ret_def)
qed

theorem no_write_near_zero_witness:
  "control \<lparr>pin = 14, h = Some 0\<rparr> 50 75 10 1 [] = ([], Inr 0)
   \<and> writes (fst (control \<lparr>pin = 14, h = Some 0\<rparr> 50 75 10 1 [reading 40, reading 50.2])) = []
   \<and> fst (run 0 14 50 75 10 1 (bench\<lparr>ticks := [reading 40, reading 50.2]\<rparr>)) =
       [LoggingInfo Initialising, GpiochipOpen 0, GpioClaimOutput 0 14,
        OpenThermalZone, LoggingInfo (ReadingTemperature 40), Sleep 10,
        OpenThermalZone, LoggingInfo (ReadingTemperature 50.2), Sleep 10]"
proof -
  have near: "\<forall>tk \<in> set [reading 40, reading 50.2]. \<forall>raw target.
      thermal tk = Contents raw \<longrightarrow>
      compute_speed 50 75 (raw / 1000) = Inr target \<longrightarrow> \<bar>target - 0\<bar> \<le> 1"
    by (auto simp: reading_def compute_speed_def)
  have tr: "fst (run 0 14 50 75 10 1 (bench\<lparr>ticks := [reading 40, reading 50.2]\<rparr>)) =
       [LoggingInfo Initialising, GpiochipOpen 0, GpioClaimOutput 0 14,
        OpenThermalZone, LoggingInfo (ReadingTemperature 40), Sleep 10,
        OpenThermalZone, LoggingInfo (ReadingTemperature 50.2), Sleep 10]"
    by (simp add: bench_def run_def Fan_init_def Fan_enter_def unfold_control)
  show ?thesis
    using no_write_near_zero [OF near, of "\<lparr>pin = 14, h = Some 0\<rparr>" 10 0 14 bench] tr
    by simp
qed

text \<open>
  C4, as the specification states it, fails: with \<open>tmax = tmin\<close> nothing is validated
  before the loop. The run opens the chip, claims the pin, enters the loop and reads the
  temperature; only then does the division raise.
\<close>

theorem equal_bounds_counterexample:
  "run 0 14 50 50 10 1 bench =
     ([LoggingInfo Initialising, GpiochipOpen 0, GpioClaimOutput 0 14, OpenThermalZone,
       LoggingInfo (ReadingTemperature 40), LoggingInfo Exiting, GpiochipClose 0],
      Inl ZeroDivisionError)
   \<and> reads (fst (run 0 14 50 50 10 1 bench)) \<noteq> 0"
  by (simp add: bench_def run_def Fan_init_def Fan_enter_def Fan_exit_def Fan_close_def
      unfold_control)

text \<open>
  C4, amended. With \<open>tmax = tmin\<close>, once the chip is open and the pin claimed, the loop
  is entered and the temperature is read; if the read succeeds, the first iteration raises
  \<open>ZeroDivisionError\<close> before any write to the fan and before any sleep, the fan is
  closed once, and the error leaves \<^verbatim>\<open>run\<close> (the error of the close, if the close
  itself fails).
\<close>

theorem equal_bounds_first_iteration:
  assumes "chip w = Some hnd" and "claim_ok w" and "ticks w = tk # tks"
    and "thermal tk = Contents raw"
  shows "run index p t t interval epsilon w =
     ([LoggingInfo Initialising, GpiochipOpen index, GpioClaimOutput hnd p, OpenThermalZone,
       LoggingInfo (ReadingTemperature (raw / 1000)), LoggingInfo Exiting, GpiochipClose hnd],
      Inl (if close_ok w then ZeroDivisionError else LgpioError))"
proof -
  have "control \<lparr>pin = p, h = Some hnd\<rparr> t t interval epsilon (ticks w) =
      ([OpenThermalZone, LoggingInfo (ReadingTemperature (raw / 1000))], Inl ZeroDivisionError)"
    using assms(3) iteration_zero_division [OF assms(4)]
    by (simp add: control_def then_do_Inl)
  from run_raised [OF assms(1) assms(2) this] show ?thesis by simp
qed

theorem equal_bounds_first_iteration_witness:
  "chip bench = Some 0 \<and> claim_ok bench \<and> ticks bench = [reading 40]
   \<and> thermal (reading 40) = Contents 40000
   \<and> run 0 14 50 50 10 1 bench =
       ([LoggingInfo Initialising, GpiochipOpen 0, GpioClaimOutput 0 14, OpenThermalZone,
         LoggingInfo (ReadingTemperature 40), LoggingInfo Exiting, GpiochipClose 0],
        Inl ZeroDivisionError)"
proof -
  have a: "chip bench = Some 0" and b: "claim_ok bench" and c: "ticks bench = [reading 40]"
    by (simp_all add: bench_def)
  have d: "thermal (reading 40) = Contents 40000" by (simp add: reading_def)
  have e: "close_ok bench" by (simp add: bench_def)
  show ?thesis
    using a b c d e equal_bounds_first_iteration [OF a b c d, of 0 14 50 10 1] by simp
qed

text \<open>
  C8. When a read of the thermal zone file fails after some completed iterations, the
  run ends there: no further read, write or sleep follows the failed read, whatever the
  later ticks would have been; the fan is closed exactly once, as the last thing the run
  does; and the run raises the error of the read (the error of the close, if the close
  itself fails).
\<close>

theorem sensor_failure_ends_run:
  assumes "chip w = Some hnd" and "claim_ok w" and "ticks w = pre @ tk # rest"
    and "control \<lparr>pin = p, h = Some hnd\<rparr> tmin tmax interval epsilon pre = (ev, Inr q)"
    and "get_temperature (thermal tk) = (evr, Inl e)"
  shows "run index p tmin tmax interval epsilon w =
     ([LoggingInfo Initialising, GpiochipOpen index, GpioClaimOutput hnd p] @ ev
        @ [OpenThermalZone, LoggingInfo Exiting, GpiochipClose hnd],
      Inl (if close_ok w then e else LgpioError))
   \<and> closes (fst (run index p tmin tmax interval epsilon w)) = [hnd]
   \<and> reads (fst (run index p tmin tmax interval epsilon w)) = Suc (length pre)
   \<and> writes (fst (run index p tmin tmax interval epsilon w)) = writes ev"
proof -
  let ?f = "\<lparr>pin = p, h = Some hnd\<rparr>"
  have evr: "evr = [OpenThermalZone]"
    using get_temperature_Inl [OF assms(5)] by simp
  have pre: "control_loop ?f tmin tmax interval epsilon 0 pre = (ev, Inr q)"
    using assms(4) by (simp add: control_def)
  have "control_loop ?f tmin tmax interval epsilon q (tk # rest) = ([OpenThermalZone], Inl e)"
    using iteration_read_fails [OF assms(5)] evr by (simp add: then_do_Inl)
  then have "control ?f tmin tmax interval epsilon (ticks w) = (ev @ [OpenThermalZone], Inl e)"
    using control_loop_append [OF pre, of "tk # rest"] assms(3) by (simp add: control_def)
  from run_raised [OF assms(1) assms(2) this]
  have r: "run index p tmin tmax interval epsilon w =
     ([LoggingInfo Initialising, GpiochipOpen index, GpioClaimOutput hnd p] @ ev
        @ [OpenThermalZone, LoggingInfo Exiting, GpiochipClose hnd],
      Inl (if close_ok w then e else LgpioError))"
    by simp
  have c: "closes ev = []"
    using control_loop_closes [of ?f tmin tmax interval epsilon 0 pre] pre by simp
  have n: "reads ev = length pre"
    using pre by (rule control_loop_reads)
  show ?thesis
    using r c n by (simp add: closes_append reads_append writes_append)
qed

theorem sensor_failure_ends_run_witness:
  "run 0 14 50 75 10 1 scenario_B =
     ([LoggingInfo Initialising, GpiochipOpen 0, GpioClaimOutput 0 14,
       OpenThermalZone, LoggingInfo (ReadingTemperature 40), Sleep 10,
       OpenThermalZone, LoggingInfo (ReadingTemperature 60),
       LoggingInfo (SettingSpeed 40), TxPwm (Some 0) 14 25 40, Sleep 10,
       OpenThermalZone, LoggingInfo Exiting, GpiochipClose 0],
      Inl OSError)
   \<and> closes (fst (run 0 14 50 75 10 1 scenario_B)) = [0]
   \<and> reads (fst (run 0 14 50 75 10 1 scenario_B)) = 3"
proof -
  have a: "chip scenario_B = Some 0" and b: "claim_ok scenario_B"
    and c: "ticks scenario_B =
      [reading 40, reading 60] @ \<lparr>thermal = Unreadable, tx_pwm_ok = True\<rparr> # [reading 90]"
    and k: "close_ok scenario_B"
    by (simp_all add: scenario_B_def)
  have d: "control \<lparr>pin = 14, h = Some 0\<rparr> 50 75 10 1 [reading 40, reading 60] =
      ([OpenThermalZone, LoggingInfo (ReadingTemperature 40), Sleep 10,
        OpenThermalZone, LoggingInfo (ReadingTemperature 60),
        LoggingInfo (SettingSpeed 40), TxPwm (Some 0) 14 25 40, Sleep 10], Inr 40)"
    by (simp add: unfold_control FREQ_def)
  have e: "get_temperature (thermal \<lparr>thermal = Unreadable, tx_pwm_ok = True\<rparr>) =
      ([OpenThermalZone], Inl OSError)"
    by (simp add: get_temperature_def)
  show ?thesis
    using sensor_failure_ends_run [OF a b c d e, of 0] k by simp
qed

end
